theory Spec2Isabelle
  imports Main "HOL-Library.Sublist"
begin

section \<open>The Hyperion Python SDK client (sdk/python/hyperion_sdk/client.py)\<close>

text \<open>
  The client is a dataclass with three fields and one private method, \<open>_request\<close>, through
  which all six public operations go. \<open>_request\<close> calls five library functions
  (\<open>json.dumps\<close>, \<open>str.encode\<close>, \<open>urllib.request.urlopen\<close> with the reads on what it
  returns or raises, \<open>bytes.decode\<close>, \<open>json.loads\<close>). They are not code of this
  repository: the embedding takes them as a record of parameters, each with the failure
  modes the client can observe, and every exception of the source is a value of the result.
\<close>

subsection \<open>Data\<close>

text \<open>Python \<open>bytes\<close>: a list of octets.\<close>

type_synonym bytes = "nat list"

text \<open>
  The values \<open>json.loads\<close> produces and \<open>json.dumps\<close> accepts. A Python \<open>dict\<close> keeps
  insertion order, so an object is an association list. Floating-point numbers are left out
  of the embedding.
\<close>

datatype json =
    JNull
  | JBool bool
  | JInt int
  | JStr string
  | JArr "json list"
  | JObj "(string \<times> json) list"

text \<open>\<open>isinstance(v, dict)\<close>: the value is a mapping.\<close>

fun is_mapping :: "json \<Rightarrow> bool" where
  "is_mapping (JObj kvs) = True"
| "is_mapping v = False"

text \<open>The dataclass \<open>HyperionClient\<close> (lines 11 to 17).\<close>

record HyperionClient =
  base_url :: string
  api_key :: "string option"
  timeout :: int

text \<open>The arguments given to \<open>urllib.request.Request\<close> on line 29.\<close>

record Request =
  req_url :: string
  req_data :: "bytes option"
  req_headers :: "(string \<times> string) list"
  req_method :: string

text \<open>
  What the \<open>with urlopen(...) as response\<close> block reads from a response: its status (never
  inspected by the client), \<open>response.headers.get_content_charset()\<close> and
  \<open>response.read()\<close>.
\<close>

record response =
  status :: int
  content_charset :: "string option"
  body :: bytes

text \<open>
  The ways line 32 can end. \<open>RaisedHTTPError code reason fp\<close> is
  \<open>urllib.error.HTTPError\<close> with its \<open>code\<close>, its \<open>reason\<close> and what \<open>exc.read()\<close> gives
  when \<open>exc.fp\<close> is set (\<open>None\<close> when it is not). For the reply of a server \<open>exc.fp\<close> is
  the response object, which is set whatever the body: a reply without body is
  \<open>Some []\<close>. \<open>RaisedURLError reason\<close> is any other \<open>urllib.error.URLError\<close>, with
  \<open>str(exc.reason)\<close>: urllib raises it when the connection cannot be made (refused, name
  not resolved, timeout while connecting). \<open>RaisedOther name\<close> is every other exception
  of lines 29 to 34, which no handler of \<open>_request\<close> catches: the \<open>ValueError\<close> of
  \<open>Request\<close> on a URL without scheme, and the \<open>TimeoutError\<close> of a reply that does not
  arrive within the timeout, which urllib raises as it is and not as \<open>URLError\<close>.
\<close>

datatype outcome =
    Responded response
  | RaisedHTTPError int string "bytes option"
  | RaisedURLError string
  | RaisedOther string

text \<open>
  What a call can raise: \<open>HyperionClientError\<close> with its message (line 76), or an exception
  of a library that goes through \<open>_request\<close> uncaught, by the name of its class.
\<close>

datatype error =
    HyperionClientError string
  | Uncaught string

text \<open>
  The library functions. \<open>decode charset bytes\<close> and \<open>loads text\<close> return \<open>Inl\<close> the name of
  the exception they raise (\<open>UnicodeDecodeError\<close>, \<open>LookupError\<close>, \<open>JSONDecodeError\<close>).
\<close>

record env =
  urlopen :: "Request \<Rightarrow> int \<Rightarrow> outcome"
  dumps :: "json \<Rightarrow> string"
  encode :: "string \<Rightarrow> bytes"
  decode :: "string \<Rightarrow> bytes \<Rightarrow> string + string"
  loads :: "string \<Rightarrow> string + json"

text \<open>
  The state a call runs in: the client object (\<open>self\<close>, a mutable dataclass instance) and
  the log of the calls made to the transport, each with its timeout.
\<close>

record state =
  self :: HyperionClient
  wire :: "(Request \<times> int) list"

subsection \<open>Python built-ins\<close>

text \<open>\<open>str(n)\<close> for an integer, as an f-string formats \<open>exc.code\<close>.\<close>

fun str_nat :: "nat \<Rightarrow> string" where
  "str_nat n =
     (if n < 10 then [char_of (48 + n)]
      else str_nat (n div 10) @ [char_of (48 + n mod 10)])"

declare str_nat.simps [simp del]

definition str_int :: "int \<Rightarrow> string" where
  "str_int i = (if i < 0 then ''-'' @ str_nat (nat (- i)) else str_nat (nat i))"

text \<open>\<open>s.rstrip(c)\<close> for a single character \<open>c\<close>: every trailing \<open>c\<close> is removed.\<close>

definition rstrip :: "char \<Rightarrow> string \<Rightarrow> string" where
  "rstrip c s = rev (dropWhile (\<lambda>x. x = c) (rev s))"

text \<open>\<open>x or d\<close> on an optional string: \<open>None\<close> and the empty string are false.\<close>

fun or_default :: "string option \<Rightarrow> string \<Rightarrow> string" where
  "or_default None d = d"
| "or_default (Some x) d = (if x = [] then d else x)"

subsection \<open>\<open>HyperionClient._request\<close>\<close>

text \<open>Lines 20 to 29: the URL, the headers, the serialised body and the request object.\<close>

definition build_request ::
  "env \<Rightarrow> HyperionClient \<Rightarrow> string \<Rightarrow> string \<Rightarrow> (string \<times> json) list option \<Rightarrow> Request" where
  "build_request E c path meth data =
     (let url = rstrip CHR ''/'' (base_url c) @ path;
          headers = [(''Content-Type'', ''application/json'')];
          headers = (case api_key c of
                       None \<Rightarrow> headers
                     | Some k \<Rightarrow> if k = [] then headers else headers @ [(''X-API-Key'', k)]);
          rdata = (case data of
                     None \<Rightarrow> None
                   | Some d \<Rightarrow> Some (encode E (dumps E (JObj d))))
      in \<lparr>req_url = url, req_data = rdata, req_headers = headers, req_method = meth\<rparr>)"

text \<open>Lines 33 to 37: the body of the \<open>with\<close> block.\<close>

definition read_response :: "env \<Rightarrow> response \<Rightarrow> error + json" where
  "read_response E r =
     (let charset = or_default (content_charset r) ''utf-8''
      in case decode E charset (body r) of
           Inl x \<Rightarrow> Inl (Uncaught x)
         | Inr payload \<Rightarrow>
             if payload = [] then Inr (JObj [])
             else (case loads E payload of
                     Inl x \<Rightarrow> Inl (Uncaught x)
                   | Inr v \<Rightarrow> Inr v))"

text \<open>Lines 38 to 40: the handler of \<open>HTTPError\<close>.\<close>

definition http_error :: "env \<Rightarrow> string \<Rightarrow> string \<Rightarrow> int \<Rightarrow> string \<Rightarrow> bytes option \<Rightarrow> error" where
  "http_error E path meth code reason fp =
     (case (case fp of
              None \<Rightarrow> Inr reason
            | Some b \<Rightarrow> decode E ''utf-8'' b) of
        Inl x \<Rightarrow> Uncaught x
      | Inr detail \<Rightarrow>
          HyperionClientError
            (''HTTP '' @ str_int code @ '' for '' @ meth @ '' '' @ path @ '': '' @ detail))"

text \<open>
  \<open>_request\<close> (lines 19 to 42). The call to the transport is logged; no statement assigns
  to a field of \<open>self\<close>.
\<close>

definition request ::
  "env \<Rightarrow> string \<Rightarrow> string \<Rightarrow> (string \<times> json) list option \<Rightarrow> state \<Rightarrow> (error + json) \<times> state" where
  "request E path meth data s =
     (let c = self s;
          rq = build_request E c path meth data;
          s' = s\<lparr>wire := wire s @ [(rq, timeout c)]\<rparr>
      in case urlopen E rq (timeout c) of
           Responded r \<Rightarrow> (read_response E r, s')
         | RaisedHTTPError code reason fp \<Rightarrow> (Inl (http_error E path meth code reason fp), s')
         | RaisedURLError reason \<Rightarrow>
             (Inl (HyperionClientError
                (''Unable to reach Hyperion at '' @ req_url rq @ '': '' @ reason)), s')
         | RaisedOther x \<Rightarrow> (Inl (Uncaught x), s'))"

subsection \<open>The six operations (lines 46 to 73)\<close>

definition get_monitoring_snapshot :: "env \<Rightarrow> state \<Rightarrow> (error + json) \<times> state" where
  "get_monitoring_snapshot E = request E ''/api/monitoring'' ''GET'' None"

definition get_health :: "env \<Rightarrow> state \<Rightarrow> (error + json) \<times> state" where
  "get_health E = request E ''/api/health'' ''GET'' None"

definition autoscale_plan :: "env \<Rightarrow> int option \<Rightarrow> state \<Rightarrow> (error + json) \<times> state" where
  "autoscale_plan E replicas =
     (let payload = (case replicas of
                       None \<Rightarrow> None
                     | Some n \<Rightarrow> Some [(''replicas'', JInt n)])
      in request E ''/api/autoscale/plan'' ''POST'' payload)"

definition deployment_plan ::
  "env \<Rightarrow> (string \<times> json) list \<Rightarrow> state \<Rightarrow> (error + json) \<times> state" where
  "deployment_plan E config = request E ''/api/deploy/plan'' ''POST'' (Some config)"

definition deployment_apply ::
  "env \<Rightarrow> (string \<times> json) list \<Rightarrow> state \<Rightarrow> (error + json) \<times> state" where
  "deployment_apply E config = request E ''/api/deploy/apply'' ''POST'' (Some config)"

definition deployment_status :: "env \<Rightarrow> state \<Rightarrow> (error + json) \<times> state" where
  "deployment_status E = request E ''/api/deploy/status'' ''GET'' None"

text \<open>
  A call of one of the six operations with its arguments, so that a statement can range
  over all of them, and the dispatch to the method called.
\<close>

datatype operation =
    GetMonitoringSnapshot
  | GetHealth
  | AutoscalePlan "int option"
  | DeploymentPlan "(string \<times> json) list"
  | DeploymentApply "(string \<times> json) list"
  | DeploymentStatus

fun invoke :: "env \<Rightarrow> operation \<Rightarrow> state \<Rightarrow> (error + json) \<times> state" where
  "invoke E GetMonitoringSnapshot = get_monitoring_snapshot E"
| "invoke E GetHealth = get_health E"
| "invoke E (AutoscalePlan replicas) = autoscale_plan E replicas"
| "invoke E (DeploymentPlan config) = deployment_plan E config"
| "invoke E (DeploymentApply config) = deployment_apply E config"
| "invoke E DeploymentStatus = deployment_status E"

subsection \<open>The interface table of the specification\<close>

text \<open>
  Section 6 of the specification gives each operation a verb, a path and a request body.
  These three functions follow that table, not the code; \<open>invoke_request\<close> below shows
  that the code agrees with them.
\<close>

fun spec_path :: "operation \<Rightarrow> string" where
  "spec_path GetMonitoringSnapshot = ''/api/monitoring''"
| "spec_path GetHealth = ''/api/health''"
| "spec_path (AutoscalePlan replicas) = ''/api/autoscale/plan''"
| "spec_path (DeploymentPlan config) = ''/api/deploy/plan''"
| "spec_path (DeploymentApply config) = ''/api/deploy/apply''"
| "spec_path DeploymentStatus = ''/api/deploy/status''"

fun spec_method :: "operation \<Rightarrow> string" where
  "spec_method GetMonitoringSnapshot = ''GET''"
| "spec_method GetHealth = ''GET''"
| "spec_method (AutoscalePlan replicas) = ''POST''"
| "spec_method (DeploymentPlan config) = ''POST''"
| "spec_method (DeploymentApply config) = ''POST''"
| "spec_method DeploymentStatus = ''GET''"

fun spec_body :: "operation \<Rightarrow> (string \<times> json) list option" where
  "spec_body GetMonitoringSnapshot = None"
| "spec_body GetHealth = None"
| "spec_body (AutoscalePlan None) = None"
| "spec_body (AutoscalePlan (Some n)) = Some [(''replicas'', JInt n)]"
| "spec_body (DeploymentPlan config) = Some config"
| "spec_body (DeploymentApply config) = Some config"
| "spec_body DeploymentStatus = None"

text \<open>The request an operation sends from a client, by that table.\<close>

definition sent :: "env \<Rightarrow> HyperionClient \<Rightarrow> operation \<Rightarrow> Request" where
  "sent E c op = build_request E c (spec_path op) (spec_method op) (spec_body op)"

section \<open>A test fixture\<close>

text \<open>
  A concrete environment for evaluating the client, after the mock server of
  \<open>tests/test_client.py\<close>: a transport that ends every call in one given way, a codec for
  ASCII text (on which UTF-8 and ASCII agree), and \<open>json.dumps\<close> and \<open>json.loads\<close> as
  tables over the few texts the fixture exchanges.
\<close>

definition health_text :: string where
  \<open>health_text = ''{"active_replicas": 4}''\<close>

definition not_found_text :: string where
  \<open>not_found_text = ''{"error": "not found"}''\<close>

definition replicas_text :: string where
  \<open>replicas_text = ''{"replicas": 3}''\<close>

definition ascii_encode :: "string \<Rightarrow> bytes" where
  "ascii_encode text = map of_char text"

definition ascii_decode :: "string \<Rightarrow> bytes \<Rightarrow> string + string" where
  "ascii_decode charset b =
     (if list_all (\<lambda>n. n < 128) b then Inr (map char_of b) else Inl ''UnicodeDecodeError'')"

definition table_dumps :: "json \<Rightarrow> string" where
  "table_dumps v =
     (case map_of
        [(JObj [(''replicas'', JInt 3)], replicas_text),
         (JObj [(''active_replicas'', JInt 4)], health_text)] v of
        None \<Rightarrow> ''{}''
      | Some text \<Rightarrow> text)"

definition table_loads :: "string \<Rightarrow> string + json" where
  "table_loads text =
     (case map_of
        [(health_text, JObj [(''active_replicas'', JInt 4)]),
         (not_found_text, JObj [(''error'', JStr ''not found'')]),
         (''[1, 2]'', JArr [JInt 1, JInt 2]),
         (''{}'', JObj [])] text of
        None \<Rightarrow> Inl ''JSONDecodeError''
      | Some v \<Rightarrow> Inr v)"

definition canned :: "outcome \<Rightarrow> env" where
  "canned out =
     \<lparr>urlopen = (\<lambda>rq t. out),
      dumps = table_dumps,
      encode = ascii_encode,
      decode = ascii_decode,
      loads = table_loads\<rparr>"

text \<open>The client of \<open>setUp\<close>, on a fixed port, and a state with nothing sent yet.\<close>

definition test_client :: HyperionClient where
  "test_client = \<lparr>base_url = ''http://127.0.0.1:8000'', api_key = Some ''test'', timeout = 10\<rparr>"

definition test_state :: state where
  "test_state = \<lparr>self = test_client, wire = []\<rparr>"

text \<open>Replies of the mock server, and two that it never gives.\<close>

definition health_reply :: response where
  "health_reply =
     \<lparr>status = 200, content_charset = None, body = ascii_encode health_text\<rparr>"

definition empty_reply :: response where
  "empty_reply = \<lparr>status = 200, content_charset = Some ''utf-8'', body = []\<rparr>"

definition array_reply :: response where
  "array_reply = \<lparr>status = 200, content_charset = None, body = ascii_encode ''[1, 2]''\<rparr>"

definition not_found :: outcome where
  "not_found = RaisedHTTPError 404 ''Not Found'' (Some (ascii_encode not_found_text))"

definition refused :: outcome where
  "refused = RaisedURLError ''[Errno 111] Connection refused''"

text \<open>
  Three more ends of a call: a 404 reply without body, a 500 reply whose body is the one
  octet \<open>0xE9\<close> (the letter e with acute accent in Latin-1, not UTF-8 text), and a server
  that accepts the connection and sends no reply before the timeout.
\<close>

definition bodiless_not_found :: outcome where
  "bodiless_not_found = RaisedHTTPError 404 ''Not Found'' (Some [])"

definition latin1_error :: outcome where
  "latin1_error = RaisedHTTPError 500 ''Internal Server Error'' (Some [233])"

definition reply_timeout :: outcome where
  "reply_timeout = RaisedOther ''TimeoutError''"

section \<open>Shared lemmas\<close>

lemma invoke_request:
  "invoke E op s = request E (spec_path op) (spec_method op) (spec_body op) s"
proof (cases op)
  case (AutoscalePlan replicas)
  then show ?thesis
    by (cases replicas) (simp_all add: autoscale_plan_def)
qed (simp_all add: get_monitoring_snapshot_def get_health_def deployment_plan_def
      deployment_apply_def deployment_status_def)

lemma request_state:
  "snd (request E path meth data s) =
     s\<lparr>wire := wire s @ [(build_request E (self s) path meth data, timeout (self s))]\<rparr>"
  by (simp add: request_def Let_def split: outcome.split)

lemma invoke_state:
  "snd (invoke E op s) = s\<lparr>wire := wire s @ [(sent E (self s) op, timeout (self s))]\<rparr>"
  by (simp add: invoke_request request_state sent_def)

lemma invoke_result:
  "fst (invoke E op s) =
     (case urlopen E (sent E (self s) op) (timeout (self s)) of
        Responded r \<Rightarrow> read_response E r
      | RaisedHTTPError code reason fp \<Rightarrow>
          Inl (http_error E (spec_path op) (spec_method op) code reason fp)
      | RaisedURLError reason \<Rightarrow>
          Inl (HyperionClientError
            (''Unable to reach Hyperion at '' @ req_url (sent E (self s) op) @ '': '' @ reason))
      | RaisedOther x \<Rightarrow> Inl (Uncaught x))"
  by (simp add: invoke_request request_def sent_def Let_def split: outcome.split)

lemma sent_url: "req_url (sent E c op) = rstrip CHR ''/'' (base_url c) @ spec_path op"
  by (simp add: sent_def build_request_def Let_def)

lemma sent_headers:
  "req_headers (sent E c op) =
     (case api_key c of
        None \<Rightarrow> [(''Content-Type'', ''application/json'')]
      | Some k \<Rightarrow>
          if k = [] then [(''Content-Type'', ''application/json'')]
          else [(''Content-Type'', ''application/json''), (''X-API-Key'', k)])"
  by (simp add: sent_def build_request_def Let_def split: option.split)

lemma dropWhile_replicate_append:
  "dropWhile (\<lambda>x. x = c) (replicate n c @ ys) = dropWhile (\<lambda>x. x = c) ys"
  by (induction n) simp_all

lemma rstrip_append_replicate: "rstrip c (s @ replicate n c) = rstrip c s"
  by (simp add: rstrip_def dropWhile_replicate_append)

lemma rstrip_decompose: "\<exists>n. s = rstrip c s @ replicate n c"
proof (induction s rule: rev_induct)
  case Nil
  show ?case by (simp add: rstrip_def)
next
  case (snoc x xs)
  show ?case
  proof (cases "x = c")
    case True
    from snoc obtain n where n: "xs = rstrip c xs @ replicate n c" by blast
    have "rstrip c (xs @ [x]) = rstrip c xs"
      using True by (simp add: rstrip_def)
    moreover have "xs @ [x] = rstrip c xs @ replicate (Suc n) c"
      using n True by (metis append_assoc replicate_append_same replicate_Suc)
    ultimately show ?thesis by metis
  next
    case False
    then have "rstrip c (xs @ [x]) = xs @ [x]" by (simp add: rstrip_def)
    then have "xs @ [x] = rstrip c (xs @ [x]) @ replicate 0 c" by simp
    then show ?thesis by blast
  qed
qed

lemma rstrip_no_trailing: "\<not> suffix [c] (rstrip c s)"
proof (induction s rule: rev_induct)
  case Nil
  show ?case by (simp add: rstrip_def)
next
  case (snoc x xs)
  show ?case
  proof (cases "x = c")
    case True
    then have "rstrip c (xs @ [x]) = rstrip c xs" by (simp add: rstrip_def)
    with snoc show ?thesis by simp
  next
    case False
    then have "rstrip c (xs @ [x]) = xs @ [x]" by (simp add: rstrip_def)
    with False show ?thesis by (simp add: suffix_def)
  qed
qed

section \<open>The claims\<close>

text \<open>
  Claim C1. For each of the six operations: when the transport returns a response of status
  200 whose body, decoded under the charset of the response (UTF-8 when it names none), is a
  non-empty text that \<open>json.loads\<close> parses to a value \<open>v\<close>, the operation returns \<open>v\<close>.
\<close>

theorem success_returns_parsed_json:
  assumes "urlopen E (sent E (self s) op) (timeout (self s)) = Responded r"
    and "status r = 200"
    and "decode E (or_default (content_charset r) ''utf-8'') (body r) = Inr payload"
    and "payload \<noteq> []"
    and "loads E payload = Inr v"
  shows "fst (invoke E op s) = Inr v"
  using assms by (simp add: invoke_result read_response_def)

text \<open>The theorem of claim C1 at a concrete call, on the fixture.\<close>

theorem success_returns_parsed_json_witness:
  "fst (invoke (canned (Responded health_reply)) GetHealth test_state)
     = Inr (JObj [(''active_replicas'', JInt 4)])"
proof -
  let ?E = "canned (Responded health_reply)"
  have a: "urlopen ?E (sent ?E (self test_state) GetHealth) (timeout (self test_state))
             = Responded health_reply"
    by (simp add: canned_def)
  have b: "status health_reply = 200"
    by (simp add: health_reply_def)
  have c: "decode ?E (or_default (content_charset health_reply) ''utf-8'') (body health_reply)
             = Inr health_text"
    by code_simp
  have d: "health_text \<noteq> []"
    by (simp add: health_text_def)
  have e: "loads ?E health_text = Inr (JObj [(''active_replicas'', JInt 4)])"
    by code_simp
  show ?thesis
    by (rule success_returns_parsed_json [OF a b c d e])
qed

text \<open>
  Claim C2 says that every reply of status 400 or more makes the call fail with
  \<open>HyperionClientError\<close>, the message holding the text of the error body, or the reason
  phrase when the reply has no body. The code does not do that at two replies. At a 404
  without body, \<open>exc.fp\<close> is set, line 39 reads the empty body, and the message ends after
  the colon: the reason phrase \<open>Not Found\<close> is not in it. At a 500 whose body is not UTF-8
  text, line 39 raises \<open>UnicodeDecodeError\<close> inside the handler, and that is what the call
  fails with.
\<close>

theorem http_error_bodiless_or_undecodable:
  "fst (invoke (canned bodiless_not_found) GetHealth test_state)
     = Inl (HyperionClientError ''HTTP 404 for GET /api/health: '')
   \<and> \<not> sublist ''Not Found'' ''HTTP 404 for GET /api/health: ''
   \<and> fst (invoke (canned latin1_error) GetHealth test_state)
     = Inl (Uncaught ''UnicodeDecodeError'')"
proof -
  have a: "fst (invoke (canned bodiless_not_found) GetHealth test_state)
             = Inl (HyperionClientError ''HTTP 404 for GET /api/health: '')"
    by code_simp
  have b: "\<not> sublist ''Not Found'' ''HTTP 404 for GET /api/health: ''"
    by code_simp
  have c: "fst (invoke (canned latin1_error) GetHealth test_state)
             = Inl (Uncaught ''UnicodeDecodeError'')"
    by code_simp
  from a b c show ?thesis by simp
qed

text \<open>
  What the handler of \<open>HTTPError\<close> does where the error body is UTF-8 text: the call fails
  with \<open>HyperionClientError\<close>, and the message is
  \<open>HTTP <code> for <verb> <path>: <detail>\<close>, so it contains the status code, the verb, the
  path and the detail. The detail is the text of the error body when \<open>exc.fp\<close> is set, and
  the reason phrase when it is not.
\<close>

theorem http_error_message:
  assumes "urlopen E (sent E (self s) op) (timeout (self s)) = RaisedHTTPError code reason fp"
    and "400 \<le> code"
    and "case fp of None \<Rightarrow> detail = reason | Some b \<Rightarrow> decode E ''utf-8'' b = Inr detail"
  shows "\<exists>msg. fst (invoke E op s) = Inl (HyperionClientError msg)
           \<and> msg = ''HTTP '' @ str_int code @ '' for '' @ spec_method op @ '' '' @ spec_path op
                   @ '': '' @ detail
           \<and> sublist (str_int code) msg \<and> sublist (spec_method op) msg
           \<and> sublist (spec_path op) msg \<and> sublist detail msg"
proof -
  let ?msg = "''HTTP '' @ str_int code @ '' for '' @ spec_method op @ '' '' @ spec_path op
                @ '': '' @ detail"
  have "(case fp of None \<Rightarrow> Inr reason | Some b \<Rightarrow> decode E ''utf-8'' b) = Inr detail"
    using assms(3) by (cases fp) simp_all
  then have "fst (invoke E op s) = Inl (HyperionClientError ?msg)"
    using assms(1) by (simp add: invoke_result http_error_def)
  moreover have "sublist (str_int code) ?msg"
    by (rule sublist_appendI)
  moreover have "sublist (spec_method op) ?msg"
    using sublist_appendI [of "spec_method op" "''HTTP '' @ str_int code @ '' for ''"] by simp
  moreover have "sublist (spec_path op) ?msg"
    using sublist_appendI
      [of "spec_path op" "''HTTP '' @ str_int code @ '' for '' @ spec_method op @ '' ''"]
    by simp
  moreover have "sublist detail ?msg"
    using sublist_append_leftI
      [of detail "''HTTP '' @ str_int code @ '' for '' @ spec_method op @ '' '' @ spec_path op
                    @ '': ''"]
    by simp
  ultimately show ?thesis by blast
qed

text \<open>The same at two concrete calls, on the fixture.\<close>

theorem http_error_message_witness:
  "fst (invoke (canned not_found) DeploymentStatus test_state)
     = Inl (HyperionClientError (''HTTP 404 for GET /api/deploy/status: '' @ not_found_text))
   \<and> sublist ''404'' (''HTTP 404 for GET /api/deploy/status: '' @ not_found_text)
   \<and> fst (invoke (canned (RaisedHTTPError 503 ''Service Unavailable'' None))
          DeploymentStatus test_state)
     = Inl (HyperionClientError ''HTTP 503 for GET /api/deploy/status: Service Unavailable'')"
proof -
  let ?E = "canned not_found"
  let ?F = "canned (RaisedHTTPError 503 ''Service Unavailable'' None)"
  have a: "urlopen ?E (sent ?E (self test_state) DeploymentStatus) (timeout (self test_state))
             = RaisedHTTPError 404 ''Not Found'' (Some (ascii_encode not_found_text))"
    by (simp add: canned_def not_found_def)
  have b: "(400::int) \<le> 404"
    by simp
  have c: "case Some (ascii_encode not_found_text) of
             None \<Rightarrow> not_found_text = ''Not Found''
           | Some b \<Rightarrow> decode ?E ''utf-8'' b = Inr not_found_text"
    by code_simp
  have d: "str_int 404 = ''404''"
    by code_simp
  have a': "urlopen ?F (sent ?F (self test_state) DeploymentStatus) (timeout (self test_state))
             = RaisedHTTPError 503 ''Service Unavailable'' None"
    by (simp add: canned_def)
  have b': "(400::int) \<le> 503"
    by simp
  have c': "case None of
              None \<Rightarrow> ''Service Unavailable'' = ''Service Unavailable''
            | Some b \<Rightarrow> decode ?F ''utf-8'' b = Inr ''Service Unavailable''"
    by simp
  have d': "str_int 503 = ''503''"
    by code_simp
  show ?thesis
    using http_error_message [OF a b c] http_error_message [OF a' b' c'] d d' by simp
qed

text \<open>
  Claim C3, as stated, fails for a client whose configured credential is the empty string:
  the test client with \<open>api_key = ""\<close> has a credential configured, and the request of
  \<open>get_health\<close> carries no \<open>X-API-Key\<close> header.
\<close>

theorem empty_credential_no_header:
  "api_key (test_client\<lparr>api_key := Some []\<rparr>) = Some []
   \<and> map_of (req_headers (sent (canned refused) (test_client\<lparr>api_key := Some []\<rparr>) GetHealth))
         ''X-API-Key'' = None"
  by (simp add: sent_headers)

text \<open>
  Claim C3, amended. For each operation and each client, the request handed to the
  transport carries \<open>Content-Type: application/json\<close>, and it carries \<open>X-API-Key\<close> with
  the configured credential exactly when a non-empty credential is configured: with no
  credential, or with the empty string, it carries no \<open>X-API-Key\<close> header.
\<close>

theorem request_headers:
  "wire (snd (invoke E op s)) = wire s @ [(sent E (self s) op, timeout (self s))]
   \<and> map_of (req_headers (sent E (self s) op)) ''Content-Type'' = Some ''application/json''
   \<and> map_of (req_headers (sent E (self s) op)) ''X-API-Key''
       = (case api_key (self s) of None \<Rightarrow> None | Some k \<Rightarrow> if k = [] then None else Some k)"
  by (simp add: invoke_state sent_headers split: option.split)

text \<open>
  Claim C4. For each operation: a response of status 200 with an empty body makes the call
  return the empty mapping, and nothing is raised. The codec named by the response's
  charset is taken to decode no bytes to the empty text.
\<close>

theorem empty_body_empty_mapping:
  assumes "urlopen E (sent E (self s) op) (timeout (self s)) = Responded r"
    and "status r = 200"
    and "body r = []"
    and "decode E (or_default (content_charset r) ''utf-8'') [] = Inr []"
  shows "fst (invoke E op s) = Inr (JObj [])"
  using assms by (simp add: invoke_result read_response_def)

text \<open>The theorem of claim C4 at a concrete call, on the fixture.\<close>

theorem empty_body_empty_mapping_witness:
  "fst (invoke (canned (Responded empty_reply)) (AutoscalePlan (Some 3)) test_state)
     = Inr (JObj [])"
proof -
  let ?E = "canned (Responded empty_reply)"
  have a: "urlopen ?E (sent ?E (self test_state) (AutoscalePlan (Some 3)))
             (timeout (self test_state)) = Responded empty_reply"
    by (simp add: canned_def)
  have b: "status empty_reply = 200"
    by (simp add: empty_reply_def)
  have c: "body empty_reply = []"
    by (simp add: empty_reply_def)
  have d: "decode ?E (or_default (content_charset empty_reply) ''utf-8'') [] = Inr []"
    by (simp add: canned_def ascii_decode_def)
  show ?thesis
    by (rule empty_body_empty_mapping [OF a b c d])
qed

text \<open>
  Claim C5. \<open>autoscale_plan\<close> with \<open>replicas\<close> omitted (\<open>None\<close>) hands the transport one
  POST request with no body at all, so with no \<open>replicas\<close> key; with an integer \<open>n\<close> it
  hands it one POST request whose body is the serialised, encoded mapping
  \<open>{"replicas": n}\<close>.
\<close>

theorem autoscale_plan_body:
  "(\<exists>rq. wire (snd (autoscale_plan E None s)) = wire s @ [(rq, timeout (self s))]
           \<and> req_method rq = ''POST'' \<and> req_data rq = None)
   \<and> (\<exists>rq. wire (snd (autoscale_plan E (Some n) s)) = wire s @ [(rq, timeout (self s))]
           \<and> req_method rq = ''POST''
           \<and> req_data rq = Some (encode E (dumps E (JObj [(''replicas'', JInt n)]))))"
  by (simp add: autoscale_plan_def request_state build_request_def Let_def)

text \<open>
  Claim C6 says that a call whose request gets no answer (connection refused, name not
  resolved, timeout) fails with \<open>HyperionClientError\<close>, the message naming the URL and the
  cause. The code does not do that when the server accepts the connection and the reply
  does not arrive within the timeout: urllib raises \<open>TimeoutError\<close>, lines 38 and 41 catch
  \<open>HTTPError\<close> and \<open>URLError\<close> only, and the call fails with \<open>TimeoutError\<close>. The transport
  has been called once.
\<close>

theorem reply_timeout_uncaught:
  "fst (invoke (canned reply_timeout) GetMonitoringSnapshot test_state)
     = Inl (Uncaught ''TimeoutError'')
   \<and> length (wire (snd (invoke (canned reply_timeout) GetMonitoringSnapshot test_state))) = 1"
proof -
  have a: "fst (invoke (canned reply_timeout) GetMonitoringSnapshot test_state)
             = Inl (Uncaught ''TimeoutError'')"
    by code_simp
  have b: "length (wire (snd (invoke (canned reply_timeout) GetMonitoringSnapshot test_state)))
             = 1"
    by code_simp
  from a b show ?thesis by simp
qed

text \<open>
  What the handler of \<open>URLError\<close> does where urllib raises one: the call fails with
  \<open>HyperionClientError\<close>, the message is \<open>Unable to reach Hyperion at <url>: <reason>\<close>
  with the full URL of the request and the cause, and the transport has been called once,
  with that request: nothing is retried.
\<close>

theorem transport_failure_message:
  assumes "urlopen E (sent E (self s) op) (timeout (self s)) = RaisedURLError reason"
  shows "\<exists>url msg. url = rstrip CHR ''/'' (base_url (self s)) @ spec_path op
           \<and> req_url (sent E (self s) op) = url
           \<and> msg = ''Unable to reach Hyperion at '' @ url @ '': '' @ reason
           \<and> fst (invoke E op s) = Inl (HyperionClientError msg)
           \<and> sublist url msg \<and> sublist reason msg
           \<and> wire (snd (invoke E op s)) = wire s @ [(sent E (self s) op, timeout (self s))]
           \<and> length (wire (snd (invoke E op s))) = Suc (length (wire s))"
proof -
  let ?url = "rstrip CHR ''/'' (base_url (self s)) @ spec_path op"
  let ?msg = "''Unable to reach Hyperion at '' @ ?url @ '': '' @ reason"
  have u: "req_url (sent E (self s) op) = ?url"
    by (rule sent_url)
  have "fst (invoke E op s) = Inl (HyperionClientError ?msg)"
    using assms by (simp add: invoke_result u)
  moreover have "sublist ?url ?msg"
    by (rule sublist_appendI)
  moreover have "sublist reason ?msg"
    using sublist_append_leftI [of reason "''Unable to reach Hyperion at '' @ ?url @ '': ''"]
    by simp
  moreover have "wire (snd (invoke E op s)) = wire s @ [(sent E (self s) op, timeout (self s))]"
    by (simp add: invoke_state)
  ultimately show ?thesis using u by simp
qed

text \<open>The same at a concrete call, on the fixture.\<close>

theorem transport_failure_message_witness:
  "fst (invoke (canned refused) GetMonitoringSnapshot test_state)
     = Inl (HyperionClientError
         ''Unable to reach Hyperion at http://127.0.0.1:8000/api/monitoring: [Errno 111] Connection refused'')
   \<and> length (wire (snd (invoke (canned refused) GetMonitoringSnapshot test_state))) = 1"
proof -
  let ?E = "canned refused"
  have a: "urlopen ?E (sent ?E (self test_state) GetMonitoringSnapshot)
             (timeout (self test_state)) = RaisedURLError ''[Errno 111] Connection refused''"
    by (simp add: canned_def refused_def)
  have b: "rstrip CHR ''/'' (base_url (self test_state)) = ''http://127.0.0.1:8000''"
    by code_simp
  have c: "wire test_state = []"
    by (simp add: test_state_def)
  show ?thesis
    using transport_failure_message [OF a] b c by simp
qed

text \<open>
  Claim C7. For each client and each operation, the URL of the request handed to the
  transport is the base address without its trailing \<open>/\<close> characters (what is removed is
  a run of \<open>/\<close>, and what remains does not end in \<open>/\<close>) followed by the path the
  specification gives the operation; two base addresses that differ only in trailing
  \<open>/\<close> characters give the same URL.
\<close>

theorem request_url:
  "wire (snd (invoke E op s)) = wire s @ [(sent E (self s) op, timeout (self s))]
   \<and> req_url (sent E c op) = rstrip CHR ''/'' (base_url c) @ spec_path op
   \<and> (\<exists>n. base_url c = rstrip CHR ''/'' (base_url c) @ replicate n CHR ''/'')
   \<and> \<not> suffix ''/'' (rstrip CHR ''/'' (base_url c))
   \<and> req_url (sent E (c\<lparr>base_url := b @ replicate m CHR ''/''\<rparr>) op)
       = req_url (sent E' (c'\<lparr>base_url := b @ replicate n CHR ''/''\<rparr>) op)"
proof -
  have "\<exists>n. base_url c = rstrip CHR ''/'' (base_url c) @ replicate n CHR ''/''"
    by (rule rstrip_decompose)
  moreover have "\<not> suffix ''/'' (rstrip CHR ''/'' (base_url c))"
    by (rule rstrip_no_trailing)
  ultimately show ?thesis
    by (simp add: invoke_state sent_url rstrip_append_replicate)
qed

text \<open>
  Claim C8. After a call of any operation, whether it returned a result or failed, the
  client object is the one before the call: \<open>base_url\<close>, \<open>api_key\<close> and \<open>timeout\<close> have
  their former values.
\<close>

theorem configuration_unchanged:
  "self (snd (invoke E op s)) = self s
   \<and> base_url (self (snd (invoke E op s))) = base_url (self s)
   \<and> api_key (self (snd (invoke E op s))) = api_key (self s)
   \<and> timeout (self (snd (invoke E op s))) = timeout (self s)"
  by (simp add: invoke_state)

text \<open>
  Claim C9. A client whose credential is the empty string sends no \<open>X-API-Key\<close> header on
  any operation, and behaves as the same client with no credential: the same request goes
  to the transport, and the same result comes back.
\<close>

theorem empty_credential_as_absent:
  "map_of (req_headers (sent E (c\<lparr>api_key := Some []\<rparr>) op)) ''X-API-Key'' = None
   \<and> sent E (c\<lparr>api_key := Some []\<rparr>) op = sent E (c\<lparr>api_key := None\<rparr>) op
   \<and> fst (invoke E op \<lparr>self = c\<lparr>api_key := Some []\<rparr>, wire = w\<rparr>)
       = fst (invoke E op \<lparr>self = c\<lparr>api_key := None\<rparr>, wire = w\<rparr>)
   \<and> wire (snd (invoke E op \<lparr>self = c\<lparr>api_key := Some []\<rparr>, wire = w\<rparr>))
       = wire (snd (invoke E op \<lparr>self = c\<lparr>api_key := None\<rparr>, wire = w\<rparr>))"
proof -
  have eq: "sent E (c\<lparr>api_key := Some []\<rparr>) op = sent E (c\<lparr>api_key := None\<rparr>) op"
    by (simp add: sent_def build_request_def Let_def)
  have "map_of (req_headers (sent E (c\<lparr>api_key := Some []\<rparr>) op)) ''X-API-Key'' = None"
    by (simp add: sent_headers)
  then show ?thesis
    using eq by (simp add: invoke_result invoke_state cong: outcome.case_cong)
qed

text \<open>
  Claim C10. For each operation: a response of status 200 whose non-empty body parses to a
  JSON value that is not an object (an array, a number) makes the call return that value,
  which is not a mapping, and nothing is raised.
\<close>

theorem non_mapping_returned:
  assumes "urlopen E (sent E (self s) op) (timeout (self s)) = Responded r"
    and "status r = 200"
    and "decode E (or_default (content_charset r) ''utf-8'') (body r) = Inr payload"
    and "payload \<noteq> []"
    and "loads E payload = Inr v"
    and "\<not> is_mapping v"
  shows "\<exists>v'. fst (invoke E op s) = Inr v' \<and> v' = v \<and> \<not> is_mapping v'"
  using assms by (simp add: invoke_result read_response_def)

text \<open>The theorem of claim C10 at a concrete call, on the fixture.\<close>

theorem non_mapping_returned_witness:
  "fst (invoke (canned (Responded array_reply)) (DeploymentPlan [(''desired_replicas'', JInt 6)])
          test_state) = Inr (JArr [JInt 1, JInt 2])
   \<and> \<not> is_mapping (JArr [JInt 1, JInt 2])"
proof -
  let ?E = "canned (Responded array_reply)"
  let ?op = "DeploymentPlan [(''desired_replicas'', JInt 6)]"
  have a: "urlopen ?E (sent ?E (self test_state) ?op) (timeout (self test_state))
             = Responded array_reply"
    by (simp add: canned_def)
  have b: "status array_reply = 200"
    by (simp add: array_reply_def)
  have c: "decode ?E (or_default (content_charset array_reply) ''utf-8'') (body array_reply)
             = Inr ''[1, 2]''"
    by code_simp
  have d: "''[1, 2]'' \<noteq> []"
    by simp
  have e: "loads ?E ''[1, 2]'' = Inr (JArr [JInt 1, JInt 2])"
    by code_simp
  have f: "\<not> is_mapping (JArr [JInt 1, JInt 2])"
    by simp
  show ?thesis
    using non_mapping_returned [OF a b c d e f] by simp
qed

end
